theory Spec2Isabelle
  imports Main "HOL-Library.Word"
begin

section \<open>Data model of the book service (main.go)\<close>

text \<open>
  Go's \<^verbatim>\<open>int\<close> is a signed machine integer; on the 64-bit targets it is 64 bits wide and
  \<^verbatim>\<open>nextID++\<close> wraps around silently. It is modelled as a 64-bit word, read as a signed
  number with \<open>sint\<close>.
\<close>

type_synonym go_int = "64 word"

text \<open>\<^verbatim>\<open>type Book struct { ID int; Title string; Author string }\<close>\<close>

record Book =
  ID :: go_int
  Title :: string
  Author :: string

text \<open>
  The package-level variables \<^verbatim>\<open>books = make(map[int]Book)\<close> and \<^verbatim>\<open>nextID = 1\<close>. The mutex
  \<^verbatim>\<open>mu\<close> makes every access to them part of one critical section per handler, so a handler
  is one atomic transition of this record.
\<close>

record registry =
  books :: "go_int \<rightharpoonup> Book"
  nextID :: go_int

definition initial :: registry where
  "initial = \<lparr>books = Map.empty, nextID = 1\<rparr>"

text \<open>The parts of \<^verbatim>\<open>*http.Request\<close> that the handlers read: \<^verbatim>\<open>r.URL.Path\<close> and \<^verbatim>\<open>r.Body\<close>.\<close>

record request =
  path :: string
  body :: string

text \<open>
  What a handler leaves in the \<^verbatim>\<open>http.ResponseWriter\<close>: a status code and a body. A JSON
  body is kept as the value that was encoded, a plain-text body as its bytes. \<open>Panicked\<close>
  is a handler that ran into a run-time panic before writing anything (net/http recovers
  it and drops the connection).
\<close>

datatype payload =
  Empty
  | Plain string
  | JSON_null
  | JSON_object Book
  | JSON_array "Book list"

datatype response = Panicked | Response nat payload

text \<open>
  The values handed to \<^verbatim>\<open>sendJSON\<close> as \<^verbatim>\<open>data interface{}\<close>: a \<^verbatim>\<open>Book\<close>, or a \<^verbatim>\<open>[]Book\<close>.
  A Go slice is either nil or a (possibly empty) sequence, hence the option.
\<close>

datatype data = BookData Book | BookSlice "Book list option"

text \<open>\<^verbatim>\<open>encoding/json\<close> encodes a nil slice as \<^verbatim>\<open>null\<close> and a non-nil one as an array.\<close>

fun Encode :: "data \<Rightarrow> payload" where
  "Encode (BookData b) = JSON_object b"
| "Encode (BookSlice None) = JSON_null"
| "Encode (BookSlice (Some bs)) = JSON_array bs"

definition sendJSON :: "data \<Rightarrow> nat \<Rightarrow> response" where
  "sendJSON d statusCode = Response statusCode (Encode d)"

text \<open>\<^verbatim>\<open>http.Error(w, msg, code)\<close> writes the status and the message followed by a newline.\<close>

definition http_Error :: "string \<Rightarrow> nat \<Rightarrow> response" where
  "http_Error msg code = Response code (Plain (msg @ [CHR 0x0A]))"

definition StatusOK :: nat where "StatusOK = 200"
definition StatusCreated :: nat where "StatusCreated = 201"
definition StatusNoContent :: nat where "StatusNoContent = 204"
definition StatusBadRequest :: nat where "StatusBadRequest = 400"
definition StatusNotFound :: nat where "StatusNotFound = 404"

subsection \<open>Library functions the handlers call\<close>

text \<open>
  \<^verbatim>\<open>strconv.Atoi\<close>: an optional sign, then one or more decimal digits, and the value must
  fit the 64-bit \<^verbatim>\<open>int\<close>. The handlers only test \<^verbatim>\<open>err != nil\<close>, so the syntax error and the
  range error are both \<open>None\<close>.
\<close>

definition isDigit :: "char \<Rightarrow> bool" where
  "isDigit c = (48 \<le> (of_char c :: nat) \<and> (of_char c :: nat) \<le> 57)"

fun digits :: "nat \<Rightarrow> string \<Rightarrow> nat option" where
  "digits n [] = Some n"
| "digits n (c # cs) =
     (if isDigit c then digits (n * 10 + ((of_char c :: nat) - 48)) cs else None)"

definition Atoi :: "string \<Rightarrow> go_int option" where
  "Atoi s =
     (case s of
        [] \<Rightarrow> None
      | c # cs \<Rightarrow>
          (let neg = (c = CHR ''-'');
               ds = (if c = CHR ''-'' \<or> c = CHR ''+'' then cs else s)
           in if ds = [] then None
              else (case digits 0 ds of
                      None \<Rightarrow> None
                    | Some n \<Rightarrow>
                        if neg then (if n \<le> 2 ^ 63 then Some (- of_nat n) else None)
                        else (if n < 2 ^ 63 then Some (of_nat n) else None))))"

text \<open>
  \<^verbatim>\<open>json.NewDecoder(r.Body).Decode(&book)\<close> on a fresh \<^verbatim>\<open>Book\<close>: an error, or the decoded
  struct. The decoder is a parameter of the handlers that decode a body, so what is proved
  of a handler holds for any decoder; the decoder of the library is \<open>Decode\<close> below.
\<close>

type_synonym decoder = "string \<Rightarrow> Book option"

text \<open>\<^verbatim>\<open>r.URL.Path[len("/books/"):]\<close>: slicing a string shorter than 7 bytes panics.\<close>

definition idStr :: "request \<Rightarrow> string option" where
  "idStr r = (if length (path r) < length ''/books/'' then None
              else Some (drop (length ''/books/'') (path r)))"

text \<open>\<^verbatim>\<open>append(bookList, book)\<close> on a slice that may be nil.\<close>

fun append_slice :: "Book list option \<Rightarrow> Book \<Rightarrow> Book list option" where
  "append_slice None b = Some [b]"
| "append_slice (Some bs) b = Some (bs @ [b])"

section \<open>The handlers\<close>

text \<open>\<^verbatim>\<open>CreateBook\<close>: decode, then under the lock assign \<^verbatim>\<open>nextID\<close>, store, increment.\<close>

definition CreateBook :: "decoder \<Rightarrow> registry \<Rightarrow> request \<Rightarrow> response \<times> registry" where
  "CreateBook decode st r =
     (case decode (body r) of
        None \<Rightarrow> (http_Error ''Invalid input'' StatusBadRequest, st)
      | Some book0 \<Rightarrow>
          (let book = book0\<lparr>ID := nextID st\<rparr>;
               st1 = st\<lparr>books := (books st)(ID book \<mapsto> book)\<rparr>;
               st2 = st1\<lparr>nextID := nextID st1 + 1\<rparr>
           in (sendJSON (BookData book) StatusCreated, st2)))"

text \<open>
  \<^verbatim>\<open>GetBooks\<close>: \<^verbatim>\<open>var bookList []Book\<close> starts as the nil slice and the \<^verbatim>\<open>range\<close> loop appends
  every stored book. Go leaves the traversal order of a map open; the order the run time
  picks is the argument \<open>order\<close>, a list of the keys of the map.
\<close>

fun range_books :: "(go_int \<rightharpoonup> Book) \<Rightarrow> go_int list \<Rightarrow> Book list option \<Rightarrow> Book list option" where
  "range_books m [] bookList = bookList"
| "range_books m (k # ks) bookList =
     (case m k of
        None \<Rightarrow> range_books m ks bookList
      | Some book \<Rightarrow> range_books m ks (append_slice bookList book))"

definition GetBooks :: "go_int list \<Rightarrow> registry \<Rightarrow> response \<times> registry" where
  "GetBooks order st = (sendJSON (BookSlice (range_books (books st) order None)) StatusOK, st)"

definition GetBook :: "registry \<Rightarrow> request \<Rightarrow> response \<times> registry" where
  "GetBook st r =
     (case idStr r of
        None \<Rightarrow> (Panicked, st)
      | Some s \<Rightarrow>
          (case Atoi s of
             None \<Rightarrow> (http_Error ''Invalid book ID'' StatusBadRequest, st)
           | Some id' \<Rightarrow>
               (case books st id' of
                  None \<Rightarrow> (http_Error ''Book not found'' StatusNotFound, st)
                | Some book \<Rightarrow> (sendJSON (BookData book) StatusOK, st))))"

definition UpdateBook :: "decoder \<Rightarrow> registry \<Rightarrow> request \<Rightarrow> response \<times> registry" where
  "UpdateBook decode st r =
     (case idStr r of
        None \<Rightarrow> (Panicked, st)
      | Some s \<Rightarrow>
          (case Atoi s of
             None \<Rightarrow> (http_Error ''Invalid book ID'' StatusBadRequest, st)
           | Some id' \<Rightarrow>
               (case decode (body r) of
                  None \<Rightarrow> (http_Error ''Invalid input'' StatusBadRequest, st)
                | Some updatedBook0 \<Rightarrow>
                    (case books st id' of
                       None \<Rightarrow> (http_Error ''Book not found'' StatusNotFound, st)
                     | Some _ \<Rightarrow>
                         (let updatedBook = updatedBook0\<lparr>ID := id'\<rparr>
                          in (sendJSON (BookData updatedBook) StatusOK,
                              st\<lparr>books := (books st)(id' \<mapsto> updatedBook)\<rparr>))))))"

definition DeleteBook :: "registry \<Rightarrow> request \<Rightarrow> response \<times> registry" where
  "DeleteBook st r =
     (case idStr r of
        None \<Rightarrow> (Panicked, st)
      | Some s \<Rightarrow>
          (case Atoi s of
             None \<Rightarrow> (http_Error ''Invalid book ID'' StatusBadRequest, st)
           | Some id' \<Rightarrow>
               (case books st id' of
                  None \<Rightarrow> (http_Error ''Book not found'' StatusNotFound, st)
                | Some _ \<Rightarrow>
                    (Response StatusNoContent Empty, st\<lparr>books := (books st)(id' := None)\<rparr>))))"

section \<open>Sequences of operations\<close>

text \<open>
  The mutex serialises the handlers, so the service sees a sequence of operations. An
  operation is a call of one handler: \<open>Create\<close> carries the request body, \<open>List\<close> the
  traversal order of the map, \<open>Get\<close> and \<open>Delete\<close> the path segment after \<^verbatim>\<open>/books/\<close>,
  \<open>Update\<close> the segment and the body. (\<^verbatim>\<open>main\<close> registers the last three handlers on the
  pattern \<^verbatim>\<open>/books/\<close>, so their paths start with it.)
\<close>

datatype op =
  Create string
  | List "go_int list"
  | Get string
  | Update string string
  | Delete string

fun step :: "decoder \<Rightarrow> registry \<Rightarrow> op \<Rightarrow> response \<times> registry" where
  "step decode st (Create b) = CreateBook decode st \<lparr>path = ''/books'', body = b\<rparr>"
| "step decode st (List order) = GetBooks order st"
| "step decode st (Get seg) = GetBook st \<lparr>path = ''/books/'' @ seg, body = []\<rparr>"
| "step decode st (Update seg b) = UpdateBook decode st \<lparr>path = ''/books/'' @ seg, body = b\<rparr>"
| "step decode st (Delete seg) = DeleteBook st \<lparr>path = ''/books/'' @ seg, body = []\<rparr>"

fun run :: "decoder \<Rightarrow> registry \<Rightarrow> op list \<Rightarrow> response list \<times> registry" where
  "run decode st [] = ([], st)"
| "run decode st (x # xs) =
     (case step decode st x of
        (resp, st1) \<Rightarrow> (case run decode st1 xs of (resps, st2) \<Rightarrow> (resp # resps, st2)))"

definition responses :: "decoder \<Rightarrow> registry \<Rightarrow> op list \<Rightarrow> response list" where
  "responses decode st xs = fst (run decode st xs)"

definition final :: "decoder \<Rightarrow> registry \<Rightarrow> op list \<Rightarrow> registry" where
  "final decode st xs = snd (run decode st xs)"

text \<open>The ids that the \<^verbatim>\<open>201 Created\<close> responses of a run carry, in order.\<close>

fun created_ids :: "response list \<Rightarrow> go_int list" where
  "created_ids [] = []"
| "created_ids (Response code (JSON_object b) # rs) =
     (if code = StatusCreated then ID b # created_ids rs else created_ids rs)"
| "created_ids (_ # rs) = created_ids rs"

text \<open>The operations that consume an id: a \<open>Create\<close> whose body the decoder accepts.\<close>

fun accepted :: "decoder \<Rightarrow> op \<Rightarrow> bool" where
  "accepted decode (Create b) = (case decode b of None \<Rightarrow> False | Some _ \<Rightarrow> True)"
| "accepted decode _ = False"

text \<open>A path segment that \<^verbatim>\<open>strconv.Atoi\<close> reads as a number that is not negative.\<close>

definition nonneg_segment :: "string \<Rightarrow> bool" where
  "nonneg_segment seg = (case Atoi seg of None \<Rightarrow> False | Some n \<Rightarrow> 0 \<le> sint n)"

subsection \<open>Ids as path segments\<close>

text \<open>
  \<^verbatim>\<open>strconv.Itoa\<close>, the decimal text of an \<^verbatim>\<open>int\<close>: what a client that was given an id
  puts after \<^verbatim>\<open>/books/\<close>. It is used to show that every id has a path segment.
\<close>

definition digit_char :: "nat \<Rightarrow> char" where
  "digit_char d = ''0123456789'' ! d"

function decimal :: "nat \<Rightarrow> string" where
  "decimal n = (if n < 10 then [digit_char n] else decimal (n div 10) @ [digit_char (n mod 10)])"
  by pat_completeness auto
termination
  by (relation "measure (\<lambda>n. n)") auto

declare decimal.simps [simp del]

definition Itoa :: "go_int \<Rightarrow> string" where
  "Itoa i = (if sint i < 0 then CHR ''-'' # decimal (nat (- sint i)) else decimal (nat (sint i)))"

section \<open>The JSON decoder\<close>

text \<open>
  \<^verbatim>\<open>json.NewDecoder(r.Body).Decode(&book)\<close> of the standard library, for the type \<^verbatim>\<open>Book\<close>.
  The decoder reads the first JSON value of the body with the scanner of
  \<^verbatim>\<open>encoding/json\<close>, a state machine that is fed one byte at a time, and stops there; what
  follows the value is not read. Then it stores the value into the \<^verbatim>\<open>Book\<close>.
\<close>

subsection \<open>The scanner\<close>

text \<open>
  The states are the step functions of \<^verbatim>\<open>scanner.go\<close>, the stack is its \<^verbatim>\<open>parseState\<close>
  (top first), and a step returns the scan code and the new scanner.
\<close>

datatype scan_state =
  BeginValueOrEmpty | BeginValue | BeginStringOrEmpty | BeginString | EndValue | EndTop
  | InString | InStringEsc | InStringEscU | InStringEscU1 | InStringEscU12 | InStringEscU123
  | Neg | Digit1 | Digit0 | Dot | Dot0 | Exp | ExpSign | Exp0
  | LitT | LitTr | LitTru | LitF | LitFa | LitFal | LitFals | LitN | LitNu | LitNul
  | ScanFailed

datatype parse_state = parseObjectKey | parseObjectValue | parseArrayValue

datatype opcode =
  scanContinue | scanBeginLiteral | scanBeginObject | scanObjectKey | scanObjectValue
  | scanEndObject | scanBeginArray | scanArrayValue | scanEndArray | scanSkipSpace
  | scanEnd | scanError

record scanner =
  stepfn :: scan_state
  parseState :: "parse_state list"

definition maxNestingDepth :: nat where
  "maxNestingDepth = 10000"

definition isSpace :: "char \<Rightarrow> bool" where
  "isSpace c = (c = CHR '' '' \<or> c = CHR 0x09 \<or> c = CHR 0x0D \<or> c = CHR 0x0A)"

definition isHex :: "char \<Rightarrow> bool" where
  "isHex c = (let n = (of_char c :: nat)
              in (48 \<le> n \<and> n \<le> 57) \<or> (97 \<le> n \<and> n \<le> 102) \<or> (65 \<le> n \<and> n \<le> 70))"

definition scan_fail :: "scanner \<Rightarrow> opcode \<times> scanner" where
  "scan_fail s = (scanError, s\<lparr>stepfn := ScanFailed\<rparr>)"

definition goto :: "scanner \<Rightarrow> scan_state \<Rightarrow> opcode \<Rightarrow> opcode \<times> scanner" where
  "goto s st opc = (opc, s\<lparr>stepfn := st\<rparr>)"

definition pushParseState :: "scanner \<Rightarrow> parse_state \<Rightarrow> opcode \<Rightarrow> opcode \<times> scanner" where
  "pushParseState s newParseState successState =
     (let s1 = s\<lparr>parseState := newParseState # parseState s\<rparr>
      in if length (parseState s1) \<le> maxNestingDepth then (successState, s1) else scan_fail s1)"

definition popParseState :: "scanner \<Rightarrow> scanner" where
  "popParseState s =
     (let ps = tl (parseState s)
      in s\<lparr>parseState := ps, stepfn := (if ps = [] then EndTop else EndValue)\<rparr>)"

definition stateEndTop :: "scanner \<Rightarrow> char \<Rightarrow> opcode \<times> scanner" where
  "stateEndTop s c = (if isSpace c then (scanEnd, s) else (scanEnd, s\<lparr>stepfn := ScanFailed\<rparr>))"

definition stateEndValue :: "scanner \<Rightarrow> char \<Rightarrow> opcode \<times> scanner" where
  "stateEndValue s c =
     (case parseState s of
        [] \<Rightarrow> stateEndTop (s\<lparr>stepfn := EndTop\<rparr>) c
      | ps # rest \<Rightarrow>
          if isSpace c then goto s EndValue scanSkipSpace
          else (case ps of
                  parseObjectKey \<Rightarrow>
                    if c = CHR '':''
                    then (scanObjectKey, s\<lparr>parseState := parseObjectValue # rest, stepfn := BeginValue\<rparr>)
                    else scan_fail s
                | parseObjectValue \<Rightarrow>
                    if c = CHR '',''
                    then (scanObjectValue, s\<lparr>parseState := parseObjectKey # rest, stepfn := BeginString\<rparr>)
                    else if c = CHR ''}'' then (scanEndObject, popParseState s)
                    else scan_fail s
                | parseArrayValue \<Rightarrow>
                    if c = CHR '','' then goto s BeginValue scanArrayValue
                    else if c = CHR '']'' then (scanEndArray, popParseState s)
                    else scan_fail s))"

definition stateBeginValue :: "scanner \<Rightarrow> char \<Rightarrow> opcode \<times> scanner" where
  "stateBeginValue s c =
     (if isSpace c then (scanSkipSpace, s)
      else if c = CHR ''{'' then pushParseState (s\<lparr>stepfn := BeginStringOrEmpty\<rparr>) parseObjectKey scanBeginObject
      else if c = CHR ''['' then pushParseState (s\<lparr>stepfn := BeginValueOrEmpty\<rparr>) parseArrayValue scanBeginArray
      else if c = CHR 0x22 then goto s InString scanBeginLiteral
      else if c = CHR ''-'' then goto s Neg scanBeginLiteral
      else if c = CHR ''0'' then goto s Digit0 scanBeginLiteral
      else if c = CHR ''t'' then goto s LitT scanBeginLiteral
      else if c = CHR ''f'' then goto s LitF scanBeginLiteral
      else if c = CHR ''n'' then goto s LitN scanBeginLiteral
      else if 49 \<le> (of_char c :: nat) \<and> (of_char c :: nat) \<le> 57 then goto s Digit1 scanBeginLiteral
      else scan_fail s)"

definition stateBeginValueOrEmpty :: "scanner \<Rightarrow> char \<Rightarrow> opcode \<times> scanner" where
  "stateBeginValueOrEmpty s c =
     (if isSpace c then (scanSkipSpace, s)
      else if c = CHR '']'' then stateEndValue s c
      else stateBeginValue s c)"

definition stateBeginString :: "scanner \<Rightarrow> char \<Rightarrow> opcode \<times> scanner" where
  "stateBeginString s c =
     (if isSpace c then (scanSkipSpace, s)
      else if c = CHR 0x22 then goto s InString scanBeginLiteral
      else scan_fail s)"

definition stateBeginStringOrEmpty :: "scanner \<Rightarrow> char \<Rightarrow> opcode \<times> scanner" where
  "stateBeginStringOrEmpty s c =
     (if isSpace c then (scanSkipSpace, s)
      else if c = CHR ''}''
      then stateEndValue (s\<lparr>parseState := parseObjectValue # tl (parseState s)\<rparr>) c
      else stateBeginString s c)"

definition stateInString :: "scanner \<Rightarrow> char \<Rightarrow> opcode \<times> scanner" where
  "stateInString s c =
     (if c = CHR 0x22 then goto s EndValue scanContinue
      else if c = CHR 0x5C then goto s InStringEsc scanContinue
      else if (of_char c :: nat) < 32 then scan_fail s
      else (scanContinue, s))"

definition stateInStringEsc :: "scanner \<Rightarrow> char \<Rightarrow> opcode \<times> scanner" where
  "stateInStringEsc s c =
     (if c \<in> set ''bfnrt'' \<or> c = CHR 0x5C \<or> c = CHR ''/'' \<or> c = CHR 0x22
      then goto s InString scanContinue
      else if c = CHR ''u'' then goto s InStringEscU scanContinue
      else scan_fail s)"

definition expect_hex :: "scanner \<Rightarrow> char \<Rightarrow> scan_state \<Rightarrow> opcode \<times> scanner" where
  "expect_hex s c next = (if isHex c then goto s next scanContinue else scan_fail s)"

definition expect_char :: "scanner \<Rightarrow> char \<Rightarrow> char \<Rightarrow> scan_state \<Rightarrow> opcode \<times> scanner" where
  "expect_char s c want next = (if c = want then goto s next scanContinue else scan_fail s)"

definition state0 :: "scanner \<Rightarrow> char \<Rightarrow> opcode \<times> scanner" where
  "state0 s c =
     (if c = CHR ''.'' then goto s Dot scanContinue
      else if c = CHR ''e'' \<or> c = CHR ''E'' then goto s Exp scanContinue
      else stateEndValue s c)"

definition stateESign :: "scanner \<Rightarrow> char \<Rightarrow> opcode \<times> scanner" where
  "stateESign s c = (if isDigit c then goto s Exp0 scanContinue else scan_fail s)"

definition scan_step :: "scanner \<Rightarrow> char \<Rightarrow> opcode \<times> scanner" where
  "scan_step s c =
     (case stepfn s of
        BeginValueOrEmpty \<Rightarrow> stateBeginValueOrEmpty s c
      | BeginValue \<Rightarrow> stateBeginValue s c
      | BeginStringOrEmpty \<Rightarrow> stateBeginStringOrEmpty s c
      | BeginString \<Rightarrow> stateBeginString s c
      | EndValue \<Rightarrow> stateEndValue s c
      | EndTop \<Rightarrow> stateEndTop s c
      | InString \<Rightarrow> stateInString s c
      | InStringEsc \<Rightarrow> stateInStringEsc s c
      | InStringEscU \<Rightarrow> expect_hex s c InStringEscU1
      | InStringEscU1 \<Rightarrow> expect_hex s c InStringEscU12
      | InStringEscU12 \<Rightarrow> expect_hex s c InStringEscU123
      | InStringEscU123 \<Rightarrow> expect_hex s c InString
      | Neg \<Rightarrow>
          if c = CHR ''0'' then goto s Digit0 scanContinue
          else if 49 \<le> (of_char c :: nat) \<and> (of_char c :: nat) \<le> 57 then goto s Digit1 scanContinue
          else scan_fail s
      | Digit1 \<Rightarrow> if isDigit c then goto s Digit1 scanContinue else state0 s c
      | Digit0 \<Rightarrow> state0 s c
      | Dot \<Rightarrow> if isDigit c then goto s Dot0 scanContinue else scan_fail s
      | Dot0 \<Rightarrow>
          if isDigit c then (scanContinue, s)
          else if c = CHR ''e'' \<or> c = CHR ''E'' then goto s Exp scanContinue
          else stateEndValue s c
      | Exp \<Rightarrow>
          if c = CHR ''+'' \<or> c = CHR ''-'' then goto s ExpSign scanContinue
          else stateESign s c
      | ExpSign \<Rightarrow> stateESign s c
      | Exp0 \<Rightarrow> if isDigit c then (scanContinue, s) else stateEndValue s c
      | LitT \<Rightarrow> expect_char s c (CHR ''r'') LitTr
      | LitTr \<Rightarrow> expect_char s c (CHR ''u'') LitTru
      | LitTru \<Rightarrow> expect_char s c (CHR ''e'') EndValue
      | LitF \<Rightarrow> expect_char s c (CHR ''a'') LitFa
      | LitFa \<Rightarrow> expect_char s c (CHR ''l'') LitFal
      | LitFal \<Rightarrow> expect_char s c (CHR ''s'') LitFals
      | LitFals \<Rightarrow> expect_char s c (CHR ''e'') EndValue
      | LitN \<Rightarrow> expect_char s c (CHR ''u'') LitNu
      | LitNu \<Rightarrow> expect_char s c (CHR ''l'') LitNul
      | LitNul \<Rightarrow> expect_char s c (CHR ''l'') EndValue
      | ScanFailed \<Rightarrow> (scanError, s))"

definition scan_reset :: scanner where
  "scan_reset = \<lparr>stepfn = BeginValue, parseState = []\<rparr>"

text \<open>
  \<^verbatim>\<open>Decoder.readValue\<close>: the number of bytes up to the end of the first value. An object or
  an array ends with its closing bracket; any other value ends before the first byte
  that cannot continue it, or at the end of the body.
\<close>

fun readValue_from :: "scanner \<Rightarrow> string \<Rightarrow> nat \<Rightarrow> nat option" where
  "readValue_from s [] scanp =
     (if fst (scan_step s (CHR '' '')) = scanEnd then Some scanp else None)"
| "readValue_from s (c # cs) scanp =
     (case scan_step s c of
        (scanEnd, s1) \<Rightarrow> Some scanp
      | (scanEndObject, s1) \<Rightarrow>
          if fst (stateEndValue s1 (CHR '' '')) = scanEnd then Some (scanp + 1)
          else readValue_from s1 cs (scanp + 1)
      | (scanEndArray, s1) \<Rightarrow>
          if fst (stateEndValue s1 (CHR '' '')) = scanEnd then Some (scanp + 1)
          else readValue_from s1 cs (scanp + 1)
      | (scanError, s1) \<Rightarrow> None
      | (_, s1) \<Rightarrow> readValue_from s1 cs (scanp + 1))"

definition readValue :: "string \<Rightarrow> nat option" where
  "readValue buf = readValue_from scan_reset buf 0"

subsection \<open>String literals\<close>

text \<open>
  \<^verbatim>\<open>unquoteBytes\<close>: escapes are replaced, an escape with four hex digits by the UTF-8
  bytes of its code point (two such escapes that form a surrogate pair by one code point,
  a lone surrogate by U+FFFD), and bytes that are not well-formed UTF-8 by U+FFFD each.
  \<open>rune_size\<close> is the size that \<^verbatim>\<open>utf8.DecodeRune\<close> reports for a well-formed sequence,
  and 0 otherwise.
\<close>

definition hexval :: "char \<Rightarrow> nat" where
  "hexval c = (let n = (of_char c :: nat)
               in if 48 \<le> n \<and> n \<le> 57 then n - 48
                  else if 97 \<le> n \<and> n \<le> 102 then n - 87
                  else n - 55)"

definition getu4 :: "string \<Rightarrow> nat option" where
  "getu4 s =
     (case s of
        b # u # h1 # h2 # h3 # h4 # _ \<Rightarrow>
          if b = CHR 0x5C \<and> u = CHR ''u'' \<and> isHex h1 \<and> isHex h2 \<and> isHex h3 \<and> isHex h4
          then Some (((hexval h1 * 16 + hexval h2) * 16 + hexval h3) * 16 + hexval h4)
          else None
      | _ \<Rightarrow> None)"

definition EncodeRune :: "nat \<Rightarrow> string" where
  "EncodeRune r =
     (if r < 0x80 then [char_of r]
      else if r < 0x800 then [char_of (0xC0 + r div 64), char_of (0x80 + r mod 64)]
      else if (0xD800 \<le> r \<and> r < 0xE000) \<or> 0x10FFFF < r then [CHR 0xEF, CHR 0xBF, CHR 0xBD]
      else if r < 0x10000
      then [char_of (0xE0 + r div 4096), char_of (0x80 + r div 64 mod 64), char_of (0x80 + r mod 64)]
      else [char_of (0xF0 + r div 262144), char_of (0x80 + r div 4096 mod 64),
            char_of (0x80 + r div 64 mod 64), char_of (0x80 + r mod 64)])"

definition in_range :: "nat \<Rightarrow> nat \<Rightarrow> string \<Rightarrow> nat \<Rightarrow> bool" where
  "in_range lo hi p i = (i < length p \<and> lo \<le> (of_char (p ! i) :: nat) \<and> (of_char (p ! i) :: nat) \<le> hi)"

definition rune_size :: "string \<Rightarrow> nat" where
  "rune_size p =
     (case p of
        [] \<Rightarrow> 0
      | p0 # _ \<Rightarrow>
          (let x = (of_char p0 :: nat)
           in if x < 0xC2 \<or> 0xF4 < x then 0
              else if x \<le> 0xDF then (if in_range 0x80 0xBF p 1 then 2 else 0)
              else if x \<le> 0xEF
              then (if length p < 3 then 0
                    else if \<not> in_range (if x = 0xE0 then 0xA0 else 0x80)
                                       (if x = 0xED then 0x9F else 0xBF) p 1 then 0
                    else if \<not> in_range 0x80 0xBF p 2 then 0
                    else 3)
              else (if length p < 4 then 0
                    else if \<not> in_range (if x = 0xF0 then 0x90 else 0x80)
                                       (if x = 0xF4 then 0x8F else 0xBF) p 1 then 0
                    else if \<not> in_range 0x80 0xBF p 2 then 0
                    else if \<not> in_range 0x80 0xBF p 3 then 0
                    else 4)))"

definition unescape :: "char \<Rightarrow> char" where
  "unescape e =
     (if e = CHR ''b'' then CHR 0x08
      else if e = CHR ''f'' then CHR 0x0C
      else if e = CHR ''n'' then CHR 0x0A
      else if e = CHR ''r'' then CHR 0x0D
      else if e = CHR ''t'' then CHR 0x09
      else e)"

fun unquote_chars :: "string \<Rightarrow> string" where
  "unquote_chars [] = []"
| "unquote_chars (c # cs) =
     (if c = CHR 0x5C
      then (case cs of
              [] \<Rightarrow> []
            | e # rest \<Rightarrow>
                if e = CHR ''u''
                then (case getu4 (c # cs) of
                        None \<Rightarrow> []
                      | Some rr \<Rightarrow>
                          if 0xD800 \<le> rr \<and> rr < 0xE000
                          then (case getu4 (drop 4 rest) of
                                  None \<Rightarrow> EncodeRune 0xFFFD @ unquote_chars (drop 4 rest)
                                | Some rr1 \<Rightarrow>
                                    if rr < 0xDC00 \<and> 0xDC00 \<le> rr1 \<and> rr1 < 0xE000
                                    then EncodeRune ((rr - 0xD800) * 1024 + (rr1 - 0xDC00) + 0x10000)
                                         @ unquote_chars (drop 10 rest)
                                    else EncodeRune 0xFFFD @ unquote_chars (drop 4 rest))
                          else EncodeRune rr @ unquote_chars (drop 4 rest))
                else unescape e # unquote_chars rest)
      else if (of_char c :: nat) < 0x80 then c # unquote_chars cs
      else (let n = rune_size (c # cs)
            in if n = 0 then EncodeRune 0xFFFD @ unquote_chars cs
               else c # take (n - 1) cs @ unquote_chars (drop (n - 1) cs)))"

definition unquote :: "string \<Rightarrow> string" where
  "unquote lit = unquote_chars (butlast (tl lit))"

subsection \<open>Storing the value into a \<^verbatim>\<open>Book\<close>\<close>

text \<open>
  The members of the outermost object, in order: the key literal and the text of the
  value (for an object or an array only its first byte, which is all that is used).
  They are collected by running the scanner over the value once more.
\<close>

record collector =
  scan :: scanner
  tok :: string
  pending :: "string option"
  members :: "(string \<times> string) list"

definition collect :: "collector \<Rightarrow> char \<Rightarrow> collector" where
  "collect col c =
     (case scan_step (scan col) c of
        (opc, s1) \<Rightarrow>
          (let col1 = col\<lparr>scan := s1\<rparr>
           in if length (parseState (scan col)) \<noteq> 1 then col1
              else (case opc of
                      scanBeginLiteral \<Rightarrow> col1\<lparr>tok := [c]\<rparr>
                    | scanBeginObject \<Rightarrow> col1\<lparr>tok := [c]\<rparr>
                    | scanBeginArray \<Rightarrow> col1\<lparr>tok := [c]\<rparr>
                    | scanContinue \<Rightarrow> col1\<lparr>tok := tok col @ [c]\<rparr>
                    | scanObjectKey \<Rightarrow> col1\<lparr>pending := Some (tok col), tok := []\<rparr>
                    | scanObjectValue \<Rightarrow>
                        (case pending col of
                           None \<Rightarrow> col1
                         | Some k \<Rightarrow> col1\<lparr>members := members col @ [(k, tok col)],
                                            pending := None, tok := []\<rparr>)
                    | scanEndObject \<Rightarrow>
                        (case pending col of
                           None \<Rightarrow> col1
                         | Some k \<Rightarrow> col1\<lparr>members := members col @ [(k, tok col)],
                                            pending := None, tok := []\<rparr>)
                    | _ \<Rightarrow> col1)))"

definition object_members :: "string \<Rightarrow> (string \<times> string) list" where
  "object_members data =
     members (foldl collect \<lparr>scan = scan_reset, tok = [], pending = None, members = []\<rparr> data)"

text \<open>
  A key selects the field whose \<^verbatim>\<open>json\<close> name it equals up to the case of ASCII letters.
  A string goes into \<^verbatim>\<open>Title\<close> and \<^verbatim>\<open>Author\<close>, a number that \<^verbatim>\<open>strconv.ParseInt\<close> accepts
  into \<^verbatim>\<open>ID\<close>, \<^verbatim>\<open>null\<close> leaves the field as it is, and any other value is a type error; the
  error is kept (\<open>savedError\<close>) and returned at the end. A member with another key is
  skipped. At the top, \<^verbatim>\<open>null\<close> leaves the \<^verbatim>\<open>Book\<close> at its zero value, and a value that is
  neither an object nor \<^verbatim>\<open>null\<close> is a type error.
\<close>

datatype field = FieldID | FieldTitle | FieldAuthor

definition fold_code :: "char \<Rightarrow> nat" where
  "fold_code c = (let n = (of_char c :: nat) in if 65 \<le> n \<and> n \<le> 90 then n + 32 else n)"

definition find_field :: "string \<Rightarrow> field option" where
  "find_field key =
     (let k = map fold_code key
      in if k = map of_char ''id'' then Some FieldID
         else if k = map of_char ''title'' then Some FieldTitle
         else if k = map of_char ''author'' then Some FieldAuthor
         else None)"

definition store_string :: "string \<Rightarrow> string option option" where
  "store_string item =
     (case item of
        [] \<Rightarrow> None
      | c # _ \<Rightarrow> if c = CHR 0x22 then Some (Some (unquote item))
                 else if c = CHR ''n'' then Some None
                 else None)"

definition store_int :: "string \<Rightarrow> go_int option option" where
  "store_int item =
     (case item of
        [] \<Rightarrow> None
      | c # _ \<Rightarrow> if c = CHR ''n'' then Some None
                 else if c = CHR ''-'' \<or> isDigit c
                 then (case Atoi item of None \<Rightarrow> None | Some n \<Rightarrow> Some (Some n))
                 else None)"

definition store_member :: "Book \<times> bool \<Rightarrow> string \<times> string \<Rightarrow> Book \<times> bool" where
  "store_member acc m =
     (case acc of
        (b, savedError) \<Rightarrow>
          (case m of
             (keylit, item) \<Rightarrow>
               (case find_field (unquote keylit) of
                  None \<Rightarrow> (b, savedError)
                | Some FieldID \<Rightarrow>
                    (case store_int item of
                       None \<Rightarrow> (b, True)
                     | Some None \<Rightarrow> (b, savedError)
                     | Some (Some n) \<Rightarrow> (b\<lparr>ID := n\<rparr>, savedError))
                | Some FieldTitle \<Rightarrow>
                    (case store_string item of
                       None \<Rightarrow> (b, True)
                     | Some None \<Rightarrow> (b, savedError)
                     | Some (Some t) \<Rightarrow> (b\<lparr>Title := t\<rparr>, savedError))
                | Some FieldAuthor \<Rightarrow>
                    (case store_string item of
                       None \<Rightarrow> (b, True)
                     | Some None \<Rightarrow> (b, savedError)
                     | Some (Some t) \<Rightarrow> (b\<lparr>Author := t\<rparr>, savedError)))))"

definition unmarshal :: "string \<Rightarrow> Book option" where
  "unmarshal data =
     (case dropWhile isSpace data of
        [] \<Rightarrow> None
      | c # _ \<Rightarrow>
          if c = CHR ''{''
          then (case foldl store_member (\<lparr>ID = 0, Title = [], Author = []\<rparr>, False)
                       (object_members data) of
                  (b, savedError) \<Rightarrow> if savedError then None else Some b)
          else if c = CHR ''n'' then Some \<lparr>ID = 0, Title = [], Author = []\<rparr>
          else None)"

definition Decode :: decoder where
  "Decode buf = (case readValue buf of None \<Rightarrow> None | Some n \<Rightarrow> unmarshal (take n buf))"

text \<open>A body that is one JSON value, with nothing but white space after it.\<close>

definition json_text :: "string \<Rightarrow> bool" where
  "json_text buf =
     (case readValue buf of None \<Rightarrow> False | Some n \<Rightarrow> list_all isSpace (drop n buf))"

text \<open>
  A body in which no JSON value begins: it is empty or blank, or its first byte after the
  white space cannot begin a value.
\<close>

definition begins_value :: "char \<Rightarrow> bool" where
  "begins_value c =
     (c = CHR ''{'' \<or> c = CHR ''['' \<or> c = CHR 0x22 \<or> c = CHR ''-'' \<or> isDigit c
      \<or> c = CHR ''t'' \<or> c = CHR ''f'' \<or> c = CHR ''n'')"

definition no_value :: "string \<Rightarrow> bool" where
  "no_value buf = (case dropWhile isSpace buf of [] \<Rightarrow> True | c # _ \<Rightarrow> \<not> begins_value c)"

section \<open>Requests and states used as examples\<close>

text \<open>
  A decoder that accepts two bodies, for running the handlers on concrete requests: the
  first body carries the id 99, which \<^verbatim>\<open>CreateBook\<close> and \<^verbatim>\<open>UpdateBook\<close> overwrite.
\<close>

definition two_bodies :: decoder where
  "two_bodies =
     [''first'' \<mapsto> \<lparr>ID = 99, Title = ''T'', Author = ''A''\<rparr>,
      ''second'' \<mapsto> \<lparr>ID = 0, Title = ''T2'', Author = ''A2''\<rparr>]"

text \<open>The registry after one book has been created: key 1 holds it and the counter is 2.\<close>

definition one_book :: registry where
  "one_book = \<lparr>books = [1 \<mapsto> \<lparr>ID = 1, Title = ''Old'', Author = ''Olde''\<rparr>], nextID = 2\<rparr>"

text \<open>
  A run that creates a book and deletes it again, \<open>n\<close> times over, starting when the
  counter is \<open>w\<close>: the map never holds more than one book.
\<close>

fun create_delete :: "go_int \<Rightarrow> nat \<Rightarrow> op list" where
  "create_delete w 0 = []"
| "create_delete w (Suc n) = Create ''first'' # Delete (Itoa w) # create_delete (w + 1) n"

section \<open>Basic facts\<close>

lemma Book_ID_update:
  "(b :: Book)\<lparr>ID := k\<rparr> = \<lparr>ID = k, Title = Title b, Author = Author b\<rparr>"
  by (cases b) simp

lemma sint_succ: "sint (w :: go_int) < 2 ^ 63 - 1 \<Longrightarrow> sint (w + 1) = sint w + 1"
  using sint_ge [of w] by (simp add: sint_word_add signed_take_bit_int_eq_self)

lemma sint_add_nat:
  "sint (w :: go_int) + int n < 2 ^ 63 \<Longrightarrow> sint (w + of_nat n) = sint w + int n"
proof (induction n)
  case 0
  then show ?case by simp
next
  case (Suc n)
  then have "sint (w + of_nat n) = sint w + int n" by simp
  moreover from Suc.prems have "sint w + int n < 2 ^ 63 - 1" by simp
  ultimately have "sint (w + of_nat n + 1) = sint w + int n + 1"
    using sint_succ [of "w + of_nat n"] by simp
  then show ?case by (simp add: ac_simps)
qed

lemma sint_ids_from:
  assumes "sint (w :: go_int) + int m \<le> 2 ^ 63"
  shows "map sint (map (\<lambda>i. w + of_nat i) [0..<m]) = map (\<lambda>i. sint w + int i) [0..<m]"
proof -
  have "sint (w + of_nat i) = sint w + int i" if "i < m" for i
    using that assms by (intro sint_add_nat) simp
  then show ?thesis by simp
qed

lemma sorted_offsets: "sorted_wrt (<) (map (\<lambda>i. (c :: int) + int i) [0..<m])"
  by (simp add: sorted_wrt_iff_nth_less)

lemma upt_0_Suc_map: "map f [0..<Suc n] = f 0 # map (\<lambda>i. f (Suc i)) [0..<n]"
  by (simp only: upt_conv_Cons [of 0 "Suc n"] zero_less_Suc if_True list.map
        map_Suc_upt [symmetric] map_map comp_def)

subsection \<open>Decimal text and \<^verbatim>\<open>Atoi\<close>\<close>

lemma of_char_digit_char: "d < 10 \<Longrightarrow> (of_char (digit_char d) :: nat) = 48 + d"
proof -
  assume "d < 10"
  then have "d = 0 \<or> d = 1 \<or> d = 2 \<or> d = 3 \<or> d = 4 \<or> d = 5 \<or> d = 6 \<or> d = 7 \<or> d = 8 \<or> d = 9"
    by arith
  then show ?thesis
    by (elim disjE) (simp_all add: digit_char_def)
qed



lemma isDigit_digit_char: "d < 10 \<Longrightarrow> isDigit (digit_char d)"
  by (simp add: isDigit_def of_char_digit_char)

lemma digits_append:
  "digits n (xs @ ys) = (case digits n xs of None \<Rightarrow> None | Some m \<Rightarrow> digits m ys)"
  by (induction xs arbitrary: n) simp_all

lemma digits_decimal: "digits 0 (decimal n) = Some n"
proof (induction n rule: decimal.induct)
  case (1 n)
  show ?case
  proof (cases "n < 10")
    case True
    then show ?thesis
      by (simp add: decimal.simps [of n] isDigit_digit_char of_char_digit_char)
  next
    case False
    with 1 have "digits 0 (decimal (n div 10)) = Some (n div 10)" by simp
    with False show ?thesis
      by (simp add: decimal.simps [of n] digits_append isDigit_digit_char of_char_digit_char)
  qed
qed

lemma decimal_shape: "\<exists>c cs. decimal n = c # cs \<and> isDigit c"
proof (induction n rule: decimal.induct)
  case (1 n)
  show ?case
  proof (cases "n < 10")
    case True
    then show ?thesis by (simp add: decimal.simps [of n] isDigit_digit_char)
  next
    case False
    with 1 obtain c cs where "decimal (n div 10) = c # cs" and "isDigit c" by auto
    with False show ?thesis by (simp add: decimal.simps [of n])
  qed
qed

lemma isDigit_not_sign: "isDigit c \<Longrightarrow> c \<noteq> CHR ''-'' \<and> c \<noteq> CHR ''+''"
  by (auto simp add: isDigit_def)


lemma Atoi_minus:
  "ds \<noteq> [] \<Longrightarrow> digits 0 ds = Some n \<Longrightarrow> n \<le> 2 ^ 63 \<Longrightarrow>
   Atoi (CHR ''-'' # ds) = Some (- of_nat n)"
  by (simp add: Atoi_def)

lemma Atoi_plain:
  "isDigit c \<Longrightarrow> digits 0 (c # cs) = Some n \<Longrightarrow> n < 2 ^ 63 \<Longrightarrow>
   Atoi (c # cs) = Some (of_nat n)"
  using isDigit_not_sign [of c] by (simp add: Atoi_def del: digits.simps)



lemma nat_neg_sint_bound: "nat (- sint (i :: go_int)) \<le> 2 ^ 63"
proof -
  have "- sint i \<le> 2 ^ 63" using sint_ge [of i] by simp
  then have "nat (- sint i) \<le> nat (2 ^ 63)" by (rule nat_mono)
  then show ?thesis by simp
qed

lemma nat_sint_bound: "\<not> sint (i :: go_int) < 0 \<Longrightarrow> nat (sint i) < 2 ^ 63"
proof -
  assume a: "\<not> sint i < 0"
  have "sint i < 2 ^ 63" using sint_lt [of i] by simp
  with a have "nat (sint i) < nat (2 ^ 63)" by (simp only: nat_less_eq_zless not_less)
  then show ?thesis by simp
qed

lemma word_of_neg_sint: "sint (i :: go_int) < 0 \<Longrightarrow> - of_nat (nat (- sint i)) = i"
proof -
  assume "sint i < 0"
  then have "int (nat (- sint i)) = - sint i" by simp
  then have "(of_int (int (nat (- sint i))) :: go_int) = of_int (- sint i)" by (simp only:)
  then show ?thesis by (simp only: of_int_of_nat_eq of_int_minus of_int_sint minus_minus) simp
qed

lemma word_of_sint: "\<not> sint (i :: go_int) < 0 \<Longrightarrow> of_nat (nat (sint i)) = i"
proof -
  assume "\<not> sint i < 0"
  then have "int (nat (sint i)) = sint i" by simp
  then have "(of_int (int (nat (sint i))) :: go_int) = of_int (sint i)" by (simp only:)
  then show ?thesis by (simp only: of_int_of_nat_eq of_int_sint) simp
qed

text \<open>
  Every id is read back from its decimal text, so every id has a path segment: a
  hypothesis \<open>Atoi seg = Some k\<close> excludes no id \<open>k\<close>.
\<close>

lemma Atoi_Itoa: "Atoi (Itoa i) = Some i"
proof (cases "sint i < 0")
  case True
  let ?n = "nat (- sint i)"
  have ne: "decimal ?n \<noteq> []"
    using decimal_shape [of ?n] by auto
  have "Atoi (CHR ''-'' # decimal ?n) = Some (- of_nat ?n)"
    using ne digits_decimal nat_neg_sint_bound by (rule Atoi_minus)
  with True word_of_neg_sint [OF True] show ?thesis
    by (simp only: Itoa_def if_True)
next
  case False
  let ?n = "nat (sint i)"
  obtain c cs where d: "decimal ?n = c # cs" and c: "isDigit c"
    using decimal_shape [of ?n] by auto
  have "digits 0 (c # cs) = Some ?n"
    using digits_decimal [of ?n] by (simp only: d)
  with c have "Atoi (c # cs) = Some (of_nat ?n)"
    using nat_sint_bound [OF False] by (rule Atoi_plain)
  with False d word_of_sint [OF False] show ?thesis
    by (simp only: Itoa_def if_False)
qed

lemma Itoa_examples: "Itoa 12 = ''12'' \<and> Itoa (- 7) = ''-7'' \<and> Itoa 0 = ''0''"
  by (simp add: Itoa_def decimal.simps digit_char_def)

subsection \<open>One operation\<close>

lemma step_nextID:
  "nextID (snd (step decode st x)) = (if accepted decode x then nextID st + 1 else nextID st)"
  by (cases x)
     (simp_all add: CreateBook_def GetBooks_def GetBook_def UpdateBook_def DeleteBook_def Let_def
        split: option.splits)

lemma step_created:
  "created_ids (fst (step decode st x) # rs) =
     (if accepted decode x then nextID st # created_ids rs else created_ids rs)"
proof (cases x)
  case (List order)
  then show ?thesis
    by (cases "range_books (books st) order None") (simp_all add: GetBooks_def sendJSON_def)
qed (simp_all add: CreateBook_def GetBook_def UpdateBook_def DeleteBook_def Let_def
       sendJSON_def http_Error_def StatusOK_def StatusCreated_def StatusNoContent_def
       split: option.splits)

lemma step_keyed:
  assumes "\<forall>k b. books st k = Some b \<longrightarrow> ID b = k"
  shows "\<forall>k b. books (snd (step decode st x)) k = Some b \<longrightarrow> ID b = k"
  using assms
  by (cases x)
     (auto simp add: CreateBook_def GetBooks_def GetBook_def UpdateBook_def DeleteBook_def Let_def
        split: option.splits if_splits)

lemma range_books_empty: "range_books Map.empty order bookList = bookList"
  by (induction order) simp_all

lemma GetBooks_empty:
  "books st = Map.empty \<Longrightarrow> GetBooks order st = (Response StatusOK JSON_null, st)"
  by (simp add: GetBooks_def sendJSON_def range_books_empty)

lemma GetBooks_one_book:
  "GetBooks [1] one_book =
     (Response StatusOK (JSON_array [\<lparr>ID = 1, Title = ''Old'', Author = ''Olde''\<rparr>]), one_book)"
  by (simp add: GetBooks_def sendJSON_def one_book_def)

subsection \<open>Runs\<close>

lemma final_Nil: "final decode st [] = st"
  by (simp add: final_def)

lemma final_Cons: "final decode st (x # xs) = final decode (snd (step decode st x)) xs"
  by (simp add: final_def split: prod.splits)

lemma responses_Nil: "responses decode st [] = []"
  by (simp add: responses_def)

lemma responses_Cons:
  "responses decode st (x # xs) =
     fst (step decode st x) # responses decode (snd (step decode st x)) xs"
  by (simp add: responses_def split: prod.splits)

lemma final_append: "final decode st (xs @ ys) = final decode (final decode st xs) ys"
  by (induction xs arbitrary: st) (simp_all add: final_Nil final_Cons)

lemma responses_append:
  "responses decode st (xs @ ys) =
     responses decode st xs @ responses decode (final decode st xs) ys"
  by (induction xs arbitrary: st) (simp_all add: final_Nil final_Cons responses_Nil responses_Cons)


lemma created_ids_run:
  "created_ids (responses decode st xs) =
     map (\<lambda>i. nextID st + of_nat i) [0..<length (filter (accepted decode) xs)]"
proof (induction xs arbitrary: st)
  case Nil
  then show ?case by (simp add: responses_Nil)
next
  case (Cons x xs)
  show ?case
  proof (cases "accepted decode x")
    case True
    then show ?thesis
      by (simp add: responses_Cons step_created Cons.IH step_nextID upt_0_Suc_map add.assoc
            del: upt_Suc)
  next
    case False
    then show ?thesis
      by (simp add: responses_Cons step_created Cons.IH step_nextID)
  qed
qed

lemma final_keyed:
  "\<forall>k b. books st k = Some b \<longrightarrow> ID b = k \<Longrightarrow>
   \<forall>k b. books (final decode st xs) k = Some b \<longrightarrow> ID b = k"
proof (induction xs arbitrary: st)
  case Nil
  then show ?case by (simp add: final_Nil)
next
  case (Cons x xs)
  from Cons.prems have "\<forall>k b. books (snd (step decode st x)) k = Some b \<longrightarrow> ID b = k"
    by (rule step_keyed)
  then show ?case unfolding final_Cons by (rule Cons.IH)
qed

lemma accepted_Create_filter:
  "length (filter (accepted decode) (map Create bs)) =
     length (filter (\<lambda>b. decode b \<noteq> None) bs)"
  by (induction bs) (auto split: option.splits)

subsection \<open>Runs that only create\<close>

lemma of_nat_inj_on_64: "inj_on (\<lambda>i. (w :: go_int) + of_nat i) {0..<2 ^ 64}"
proof (rule inj_onI)
  fix i j :: nat
  assume i: "i \<in> {0..<2 ^ 64}" and j: "j \<in> {0..<2 ^ 64}"
    and eq: "w + of_nat i = w + of_nat j"
  from eq have "(of_nat i :: go_int) = of_nat j" by simp
  then have "unat (of_nat i :: go_int) = unat (of_nat j :: go_int)" by simp
  then have "i mod 2 ^ 64 = j mod 2 ^ 64" by (simp add: unat_of_nat)
  with i j show "i = j" by simp
qed

lemma step_Create_dom:
  "dom (books (snd (step decode st (Create b)))) =
     (if accepted decode (Create b) then insert (nextID st) (dom (books st)) else dom (books st))"
  by (simp add: CreateBook_def Let_def split: option.splits)

lemma image_upt_Suc: "f ` {0..<Suc n} = insert (f 0) ((\<lambda>i. f (Suc i)) ` {0..<n})"
proof -
  have "{0..<Suc n} = insert 0 (Suc ` {0..<n})"
    by (simp only: image_Suc_atLeastLessThan) auto
  then show ?thesis by (simp only: image_insert image_image)
qed

lemma dom_final_creates:
  "dom (books (final decode st (map Create bs))) =
     dom (books st) \<union> (\<lambda>i. nextID st + of_nat i) ` {0..<length (filter (accepted decode) (map Create bs))}"
proof (induction bs arbitrary: st)
  case Nil
  then show ?case by (simp add: final_Nil)
next
  case (Cons b bs)
  show ?case
  proof (cases "accepted decode (Create b)")
    case True
    then show ?thesis
      by (simp add: final_Cons Cons.IH step_Create_dom step_nextID image_upt_Suc add.assoc
            del: step.simps accepted.simps)
  next
    case False
    then show ?thesis
      by (simp add: final_Cons Cons.IH step_Create_dom step_nextID del: step.simps accepted.simps)
  qed
qed

lemma creates_fit:
  assumes "card (dom (books (final decode st (map Create bs)))) < 2 ^ 63"
  shows "length (filter (accepted decode) (map Create bs)) < 2 ^ 63"
proof (rule ccontr)
  let ?n = "length (filter (accepted decode) (map Create bs))"
  let ?f = "\<lambda>i. nextID st + of_nat i"
  assume "\<not> ?n < 2 ^ 63"
  then have n: "(2 :: nat) ^ 63 \<le> ?n" by simp
  then have "?f ` {0..<2 ^ 63} \<subseteq> ?f ` {0..<?n}"
    by (intro image_mono) simp
  also have "\<dots> \<subseteq> dom (books (final decode st (map Create bs)))"
    by (simp only: dom_final_creates) simp
  finally have "card (?f ` {0..<2 ^ 63}) \<le> card (dom (books (final decode st (map Create bs))))"
    by (intro card_mono) simp_all
  moreover have "inj_on ?f {0..<2 ^ 63}"
    by (rule inj_on_subset [OF of_nat_inj_on_64]) simp
  then have "card (?f ` {0..<2 ^ 63}) = 2 ^ 63"
    by (simp add: card_image)
  ultimately show False using assms by simp
qed

subsection \<open>Runs that create and delete\<close>


lemma create_delete_pair:
  assumes "books st = Map.empty"
  shows "final two_bodies st [Create ''first'', Delete (Itoa (nextID st))] =
           st\<lparr>nextID := nextID st + 1\<rparr>"
  using assms
  by (simp add: final_def CreateBook_def DeleteBook_def idStr_def Atoi_Itoa Let_def two_bodies_def)


lemma create_delete_small:
  "books st = Map.empty \<Longrightarrow>
   card (dom (books (final two_bodies st (take k (create_delete (nextID st) n))))) \<le> 1"
proof (induction n arbitrary: st k)
  case 0
  then show ?case by (simp add: final_Nil)
next
  case (Suc n)
  let ?st1 = "st\<lparr>nextID := nextID st + 1\<rparr>"
  consider "k = 0" | "k = 1" | j where "k = Suc (Suc j)"
    by (cases k rule: nat.exhaust; cases "k - 1" rule: nat.exhaust) auto
  then show ?case
  proof cases
    case 1
    with Suc.prems show ?thesis by (simp add: final_Nil)
  next
    case 2
    with Suc.prems show ?thesis
      by (simp add: final_Cons final_Nil step_Create_dom two_bodies_def del: step.simps)
  next
    case 3
    have "final two_bodies st (take k (create_delete (nextID st) (Suc n))) =
          final two_bodies (final two_bodies st [Create ''first'', Delete (Itoa (nextID st))])
            (take j (create_delete (nextID st + 1) n))"
      using final_append [of two_bodies st "[Create ''first'', Delete (Itoa (nextID st))]"
              "take j (create_delete (nextID st + 1) n)"] 3
      by simp
    also have "\<dots> = final two_bodies ?st1 (take j (create_delete (nextID ?st1) n))"
      using Suc.prems by (simp add: create_delete_pair)
    finally show ?thesis
      using Suc.IH [of ?st1 j] Suc.prems by simp
  qed
qed




subsection \<open>The decoder\<close>

lemmas scan_defs = scan_step_def stateBeginValue_def stateBeginValueOrEmpty_def stateBeginString_def
  stateBeginStringOrEmpty_def stateEndValue_def stateEndTop_def stateInString_def stateInStringEsc_def
  state0_def stateESign_def expect_hex_def expect_char_def goto_def scan_fail_def pushParseState_def
  popParseState_def maxNestingDepth_def isSpace_def isHex_def isDigit_def scan_reset_def

lemmas decode_defs = Decode_def readValue_def unmarshal_def object_members_def collect_def
  store_member_def store_int_def store_string_def find_field_def fold_code_def unquote_def
  json_text_def

lemma scan_reset_space: "isSpace c \<Longrightarrow> scan_step scan_reset c = (scanSkipSpace, scan_reset)"
  by (simp add: scan_step_def scan_reset_def stateBeginValue_def)

lemma scan_reset_other:
  assumes "\<not> isSpace c" and "\<not> begins_value c"
  shows "fst (scan_step scan_reset c) = scanError"
proof -
  from assms(2) have ne: "c \<noteq> CHR ''{''" "c \<noteq> CHR ''[''" "c \<noteq> CHR 0x22" "c \<noteq> CHR ''-''"
      "c \<noteq> CHR ''t''" "c \<noteq> CHR ''f''" "c \<noteq> CHR ''n''" and nd: "\<not> isDigit c"
    by (simp_all add: begins_value_def)
  have "isDigit (CHR ''0'')" by (simp add: isDigit_def)
  with nd have z: "c \<noteq> CHR ''0''" by blast
  from nd have r: "\<not> (49 \<le> (of_char c :: nat) \<and> (of_char c :: nat) \<le> 57)"
    by (simp add: isDigit_def)
  have "stateBeginValue scan_reset c = scan_fail scan_reset"
    using assms(1) ne z r by (simp only: stateBeginValue_def if_False)
  then show ?thesis
    by (simp add: scan_step_def scan_reset_def scan_fail_def)
qed

lemma readValue_from_no_value: "no_value buf \<Longrightarrow> readValue_from scan_reset buf k = None"
proof (induction buf arbitrary: k)
  case Nil
  have "isSpace (CHR '' '')" by (simp add: isSpace_def)
  then show ?case by (simp add: scan_reset_space)
next
  case (Cons c cs)
  show ?case
  proof (cases "isSpace c")
    case True
    with Cons.prems have "no_value cs" by (simp add: no_value_def)
    then have "readValue_from scan_reset cs (k + 1) = None" by (rule Cons.IH)
    with True show ?thesis by (simp add: scan_reset_space)
  next
    case False
    with Cons.prems have "\<not> begins_value c" by (simp add: no_value_def)
    with False have "fst (scan_step scan_reset c) = scanError" by (rule scan_reset_other)
    then show ?thesis by (cases "scan_step scan_reset c") simp
  qed
qed

lemma Decode_no_value: "no_value buf \<Longrightarrow> Decode buf = None"
  by (simp add: Decode_def readValue_def readValue_from_no_value)

lemma Decode_examples:
  "Decode ''{\"id\":99,\"title\":\"T\",\"author\":\"A\"}'' = Some \<lparr>ID = 99, Title = ''T'', Author = ''A''\<rparr>
   \<and> Decode ''{\"Title\":\"T\",\"x\":[1,{\"y\":null}]}'' = Some \<lparr>ID = 0, Title = ''T'', Author = []\<rparr>
   \<and> Decode ''null'' = Some \<lparr>ID = 0, Title = [], Author = []\<rparr>
   \<and> Decode ''{\"title\":5}'' = None
   \<and> Decode ''{\"id\":1.5}'' = None
   \<and> Decode ''[]'' = None
   \<and> Decode [] = None"
  by (simp add: decode_defs scan_defs Atoi_def)

section \<open>Creating books\<close>

text \<open>
  C1. Starting from the initial registry (empty map, next id 1), a sequence of Create
  operations returns the ids 1, 2, 3, ... in order, one for every body that decodes: the
  ids read as signed numbers are exactly \<open>1 .. m\<close>, they are strictly increasing and
  pairwise distinct. Each Create that decodes assigns the current \<^verbatim>\<open>nextID\<close> to the stored
  record, whatever id the body carried, stores it under that key, increments \<^verbatim>\<open>nextID\<close> by
  one and answers 201 with the stored record.

  The sequences are those a process can run. Nothing is deleted in such a run, so every
  record created is still in the map at its end, and a Go map holds fewer than \<open>2 ^ 63\<close>
  entries (its length is an \<^verbatim>\<open>int\<close>, and the entries have to fit the address space): this
  is the hypothesis. The counter cannot wrap in such a run.
\<close>

theorem create_sequence_ids:
  assumes "card (dom (books (final decode initial (map Create bs)))) < 2 ^ 63"
  shows "map sint (created_ids (responses decode initial (map Create bs))) =
           map int [1..<Suc (length (filter (\<lambda>b. decode b \<noteq> None) bs))]
       \<and> sorted_wrt (<) (map sint (created_ids (responses decode initial (map Create bs))))
       \<and> distinct (created_ids (responses decode initial (map Create bs)))
       \<and> (\<forall>st r b. decode (body r) = Some b \<longrightarrow>
            CreateBook decode st r =
              (Response StatusCreated (JSON_object (b\<lparr>ID := nextID st\<rparr>)),
               st\<lparr>books := (books st)(nextID st \<mapsto> b\<lparr>ID := nextID st\<rparr>),
                    nextID := nextID st + 1\<rparr>))"
proof -
  let ?m = "length (filter (\<lambda>b. decode b \<noteq> None) bs)"
  let ?ids = "created_ids (responses decode initial (map Create bs))"
  have m: "?m < 2 ^ 63"
    using creates_fit [OF assms] by (simp only: accepted_Create_filter)
  have ids: "?ids = map (\<lambda>i. 1 + of_nat i) [0..<?m]"
    by (simp only: created_ids_run accepted_Create_filter) (simp add: initial_def)
  have "sint (1 :: go_int) + int ?m \<le> 2 ^ 63"
    using m by simp
  then have "map sint ?ids = map (\<lambda>i. sint (1 :: go_int) + int i) [0..<?m]"
    unfolding ids by (rule sint_ids_from)
  then have s: "map sint ?ids = map (\<lambda>i. 1 + int i) [0..<?m]"
    by simp
  have "map (\<lambda>i. 1 + int i) [0..<?m] = map int [1..<Suc ?m]"
    by (simp add: map_Suc_upt [symmetric] del: upt_Suc)
  with s have a: "map sint ?ids = map int [1..<Suc ?m]" by simp
  have b: "sorted_wrt (<) (map sint ?ids)"
    unfolding s by (rule sorted_offsets)
  then have "distinct (map sint ?ids)"
    by (simp add: strict_sorted_iff)
  then have c: "distinct ?ids"
    by (simp add: distinct_map)
  have d: "\<forall>st r b. decode (body r) = Some b \<longrightarrow>
            CreateBook decode st r =
              (Response StatusCreated (JSON_object (b\<lparr>ID := nextID st\<rparr>)),
               st\<lparr>books := (books st)(nextID st \<mapsto> b\<lparr>ID := nextID st\<rparr>),
                    nextID := nextID st + 1\<rparr>)"
    by (simp add: CreateBook_def sendJSON_def Let_def)
  from a b c d show ?thesis by blast
qed

text \<open>Three Create requests, the second with a body that does not decode: the ids are 1, 2.\<close>

theorem create_sequence_ids_witness:
  "card (dom (books (final two_bodies initial (map Create [''first'', ''x'', ''second''])))) < 2 ^ 63
   \<and> map sint (created_ids (responses two_bodies initial
        (map Create [''first'', ''x'', ''second'']))) = [1, 2]
   \<and> CreateBook two_bodies initial \<lparr>path = ''/books'', body = ''first''\<rparr> =
        (Response 201 (JSON_object \<lparr>ID = 1, Title = ''T'', Author = ''A''\<rparr>),
         \<lparr>books = [1 \<mapsto> \<lparr>ID = 1, Title = ''T'', Author = ''A''\<rparr>], nextID = 2\<rparr>)"
proof -
  have h: "card (dom (books (final two_bodies initial
              (map Create [''first'', ''x'', ''second''])))) < 2 ^ 63"
    by (simp add: final_def two_bodies_def initial_def CreateBook_def Let_def)
  from h create_sequence_ids [OF h] show ?thesis
    by (simp add: two_bodies_def initial_def StatusCreated_def)
qed

section \<open>Listing books\<close>

text \<open>
  C2. On the empty registry \<^verbatim>\<open>GetBooks\<close> answers 200, and the claim wants the body to be
  the empty array. The handler's \<^verbatim>\<open>bookList\<close> is still the nil slice when the map has no
  entry, and the encoder writes nil as \<^verbatim>\<open>null\<close>: the body is \<^verbatim>\<open>null\<close>, not \<^verbatim>\<open>[]\<close>.
\<close>

theorem list_empty_is_null:
  "GetBooks [] initial = (Response 200 JSON_null, initial)
   \<and> fst (GetBooks [] initial) \<noteq> Response 200 (JSON_array [])"
  by (simp add: GetBooks_def sendJSON_def StatusOK_def)

section \<open>Path segments that are not ids\<close>

text \<open>
  C3 (as amended). For Get, Update and Delete: when \<^verbatim>\<open>strconv.Atoi\<close> rejects the path
  segment (it is not an optionally signed decimal number that fits \<^verbatim>\<open>int\<close>), the handler
  answers 400 "Invalid book ID" whatever the registry holds, and leaves the registry as
  it was.
\<close>

theorem unparsable_id_rejected:
  assumes "Atoi seg = None"
  shows "GetBook st \<lparr>path = ''/books/'' @ seg, body = bd\<rparr> =
           (http_Error ''Invalid book ID'' StatusBadRequest, st)
       \<and> UpdateBook decode st \<lparr>path = ''/books/'' @ seg, body = bd\<rparr> =
           (http_Error ''Invalid book ID'' StatusBadRequest, st)
       \<and> DeleteBook st \<lparr>path = ''/books/'' @ seg, body = bd\<rparr> =
           (http_Error ''Invalid book ID'' StatusBadRequest, st)"
  using assms by (simp add: GetBook_def UpdateBook_def DeleteBook_def idStr_def)

theorem unparsable_id_rejected_witness:
  "Atoi ''abc'' = None
   \<and> GetBook one_book \<lparr>path = ''/books/'' @ ''abc'', body = []\<rparr> =
       (Response 400 (Plain (''Invalid book ID'' @ [CHR 0x0A])), one_book)
   \<and> UpdateBook two_bodies one_book \<lparr>path = ''/books/'' @ ''abc'', body = []\<rparr> =
       (Response 400 (Plain (''Invalid book ID'' @ [CHR 0x0A])), one_book)
   \<and> DeleteBook one_book \<lparr>path = ''/books/'' @ ''abc'', body = []\<rparr> =
       (Response 400 (Plain (''Invalid book ID'' @ [CHR 0x0A])), one_book)"
  using unparsable_id_rejected [of "''abc''" one_book "[]" two_bodies]
  by (simp add: Atoi_def isDigit_def http_Error_def StatusBadRequest_def)

text \<open>
  C3 as written also promises 400 for a negative segment. \<^verbatim>\<open>Atoi\<close> reads \<^verbatim>\<open>-1\<close> as
  the number -1, the handler looks it up, and the answer is 404.
\<close>

theorem negative_id_not_rejected:
  "\<not> nonneg_segment ''-1''
   \<and> Atoi ''-1'' = Some (- 1)
   \<and> GetBook initial \<lparr>path = ''/books/-1'', body = []\<rparr> =
       (Response 404 (Plain (''Book not found'' @ [CHR 0x0A])), initial)
   \<and> fst (GetBook initial \<lparr>path = ''/books/-1'', body = []\<rparr>) \<noteq>
       http_Error ''Invalid book ID'' StatusBadRequest"
  by (simp add: nonneg_segment_def GetBook_def idStr_def Atoi_def isDigit_def initial_def
        http_Error_def StatusNotFound_def StatusBadRequest_def)

section \<open>Bodies that do not decode\<close>

text \<open>
  C4 (as amended). In every registry state, a Create or an Update from whose body the
  decoder cannot read a first JSON value that fits a \<^verbatim>\<open>Book\<close> (\<open>Decode\<close> returns an error)
  answers 400 and returns the registry it was given: map and counter are the same. (For
  Update the message is "Invalid book ID" when the segment is no number either, and
  "Invalid input" otherwise.) Every body that is empty, blank or begins with a byte that
  cannot begin a JSON value is such a body.
\<close>

theorem undecodable_body_rejected:
  "(Decode bd = None \<longrightarrow>
      CreateBook Decode st \<lparr>path = p, body = bd\<rparr> =
        (http_Error ''Invalid input'' StatusBadRequest, st)
      \<and> UpdateBook Decode st \<lparr>path = ''/books/'' @ seg, body = bd\<rparr> =
          (http_Error (if Atoi seg = None then ''Invalid book ID'' else ''Invalid input'')
             StatusBadRequest, st))
   \<and> (no_value bd \<longrightarrow> Decode bd = None)"
  by (simp add: CreateBook_def UpdateBook_def idStr_def Decode_no_value split: option.splits)

text \<open>A plain-text body, and a body that ends inside an object.\<close>

theorem undecodable_body_rejected_witness:
  "no_value ''hello''
   \<and> Decode ''hello'' = None
   \<and> CreateBook Decode one_book \<lparr>path = ''/books'', body = ''hello''\<rparr> =
       (Response 400 (Plain (''Invalid input'' @ [CHR 0x0A])), one_book)
   \<and> UpdateBook Decode one_book \<lparr>path = ''/books/'' @ ''1'', body = ''hello''\<rparr> =
       (Response 400 (Plain (''Invalid input'' @ [CHR 0x0A])), one_book)
   \<and> Decode ''{\"title\":\"T\"'' = None
   \<and> CreateBook Decode one_book \<lparr>path = ''/books'', body = ''{\"title\":\"T\"''\<rparr> =
       (Response 400 (Plain (''Invalid input'' @ [CHR 0x0A])), one_book)"
proof -
  have a: "no_value ''hello''"
    by (simp add: no_value_def begins_value_def isSpace_def isDigit_def)
  have b: "Decode ''{\"title\":\"T\"'' = None"
    by (simp add: decode_defs scan_defs)
  from a b undecodable_body_rejected [of "''hello''" one_book "''/books''" "''1''"]
    undecodable_body_rejected [of "''{\"title\":\"T\"''" one_book "''/books''" "''1''"]
  show ?thesis
    by (simp add: http_Error_def StatusBadRequest_def Atoi_def isDigit_def)
qed

text \<open>
  C4 as written promises 400 for every body that is not JSON. The decoder stops after the
  first JSON value, so an object followed by other text is accepted: Create stores a
  book and answers 201, Update replaces the book and answers 200.
\<close>

theorem trailing_garbage_accepted:
  "\<not> json_text ''{\"title\":\"T\"} garbage''
   \<and> CreateBook Decode initial \<lparr>path = ''/books'', body = ''{\"title\":\"T\"} garbage''\<rparr> =
       (Response 201 (JSON_object \<lparr>ID = 1, Title = ''T'', Author = []\<rparr>),
        \<lparr>books = [1 \<mapsto> \<lparr>ID = 1, Title = ''T'', Author = []\<rparr>], nextID = 2\<rparr>)
   \<and> UpdateBook Decode one_book \<lparr>path = ''/books/1'', body = ''{\"title\":\"T\"} garbage''\<rparr> =
       (Response 200 (JSON_object \<lparr>ID = 1, Title = ''T'', Author = []\<rparr>),
        \<lparr>books = [1 \<mapsto> \<lparr>ID = 1, Title = ''T'', Author = []\<rparr>], nextID = 2\<rparr>)"
proof -
  have d: "Decode ''{\"title\":\"T\"} garbage'' = Some \<lparr>ID = 0, Title = ''T'', Author = []\<rparr>"
    by (simp add: decode_defs scan_defs)
  have j: "\<not> json_text ''{\"title\":\"T\"} garbage''"
    by (simp add: decode_defs scan_defs)
  from d j show ?thesis
    by (simp add: CreateBook_def UpdateBook_def idStr_def Atoi_def isDigit_def sendJSON_def
          initial_def one_book_def StatusCreated_def StatusOK_def Let_def)
qed

section \<open>Updating a book\<close>

text \<open>
  C5. Let the path segment read as the id \<open>k\<close> and the body decode to \<open>b\<close>. If the
  registry holds a record under \<open>k\<close>, Update stores \<open>{k, Title b, Author b}\<close> there (the id
  of the body is overwritten by \<open>k\<close>, nothing of the old record is kept), answers 200 with
  that record, and a Get of \<open>k\<close> right after answers 200 with the same record. If there is
  no record under \<open>k\<close>, Update answers 404 and the registry is unchanged.
\<close>

theorem update_replaces_record:
  assumes "Atoi seg = Some k" and "decode bd = Some b"
  shows "(books st k \<noteq> None \<longrightarrow>
           UpdateBook decode st \<lparr>path = ''/books/'' @ seg, body = bd\<rparr> =
             (Response StatusOK (JSON_object \<lparr>ID = k, Title = Title b, Author = Author b\<rparr>),
              st\<lparr>books := (books st)(k \<mapsto> \<lparr>ID = k, Title = Title b, Author = Author b\<rparr>)\<rparr>)
           \<and> (\<forall>seg' bd'. Atoi seg' = Some k \<longrightarrow>
                GetBook (snd (UpdateBook decode st \<lparr>path = ''/books/'' @ seg, body = bd\<rparr>))
                        \<lparr>path = ''/books/'' @ seg', body = bd'\<rparr> =
                  (Response StatusOK (JSON_object \<lparr>ID = k, Title = Title b, Author = Author b\<rparr>),
                   snd (UpdateBook decode st \<lparr>path = ''/books/'' @ seg, body = bd\<rparr>))))
       \<and> (books st k = None \<longrightarrow>
           UpdateBook decode st \<lparr>path = ''/books/'' @ seg, body = bd\<rparr> =
             (http_Error ''Book not found'' StatusNotFound, st))"
  using assms
  by (auto simp add: UpdateBook_def GetBook_def sendJSON_def idStr_def Let_def Book_ID_update
        split: option.splits)

text \<open>
  Key 1 holds \<open>{1, Old, Olde}\<close>; the body decodes to \<open>{99, T, A}\<close>. Update of 1 stores and
  returns \<open>{1, T, A}\<close>, and Get returns it; Update of 7, which is absent, answers 404.
\<close>

theorem update_replaces_record_witness:
  "Atoi ''1'' = Some 1
   \<and> two_bodies ''first'' = Some \<lparr>ID = 99, Title = ''T'', Author = ''A''\<rparr>
   \<and> books one_book 1 \<noteq> None
   \<and> UpdateBook two_bodies one_book \<lparr>path = ''/books/'' @ ''1'', body = ''first''\<rparr> =
       (Response 200 (JSON_object \<lparr>ID = 1, Title = ''T'', Author = ''A''\<rparr>),
        one_book\<lparr>books := (books one_book)(1 \<mapsto> \<lparr>ID = 1, Title = ''T'', Author = ''A''\<rparr>)\<rparr>)
   \<and> fst (GetBook (snd (UpdateBook two_bodies one_book
               \<lparr>path = ''/books/'' @ ''1'', body = ''first''\<rparr>))
            \<lparr>path = ''/books/'' @ ''1'', body = []\<rparr>) =
       Response 200 (JSON_object \<lparr>ID = 1, Title = ''T'', Author = ''A''\<rparr>)
   \<and> Atoi ''7'' = Some 7
   \<and> books one_book 7 = None
   \<and> UpdateBook two_bodies one_book \<lparr>path = ''/books/'' @ ''7'', body = ''first''\<rparr> =
       (Response 404 (Plain (''Book not found'' @ [CHR 0x0A])), one_book)"
  using update_replaces_record [of "''1''" 1 two_bodies "''first''"
          "\<lparr>ID = 99, Title = ''T'', Author = ''A''\<rparr>" one_book]
        update_replaces_record [of "''7''" 7 two_bodies "''first''"
          "\<lparr>ID = 99, Title = ''T'', Author = ''A''\<rparr>" one_book]
  by (simp add: Atoi_def isDigit_def two_bodies_def one_book_def http_Error_def
        StatusOK_def StatusNotFound_def GetBook_def idStr_def sendJSON_def)

section \<open>Create, then Get\<close>

text \<open>
  C6. In every registry state, a Create whose body decodes to title \<open>T\<close> and author \<open>A\<close>
  answers 201 with the record \<open>{id, T, A}\<close>, where \<open>id\<close> is the counter; a Get right after,
  on a path segment that reads as this id, answers 200 with exactly \<open>{id, T, A}\<close>. The
  decimal text of the id is such a segment.
\<close>

theorem create_then_get:
  assumes "decode bd = Some b"
  shows "fst (CreateBook decode st \<lparr>path = p, body = bd\<rparr>) =
           Response StatusCreated
             (JSON_object \<lparr>ID = nextID st, Title = Title b, Author = Author b\<rparr>)
       \<and> (\<forall>seg bd'. Atoi seg = Some (nextID st) \<longrightarrow>
            GetBook (snd (CreateBook decode st \<lparr>path = p, body = bd\<rparr>))
                    \<lparr>path = ''/books/'' @ seg, body = bd'\<rparr> =
              (Response StatusOK
                 (JSON_object \<lparr>ID = nextID st, Title = Title b, Author = Author b\<rparr>),
               snd (CreateBook decode st \<lparr>path = p, body = bd\<rparr>)))
       \<and> GetBook (snd (CreateBook decode st \<lparr>path = p, body = bd\<rparr>))
                   \<lparr>path = ''/books/'' @ Itoa (nextID st), body = bd'\<rparr> =
             (Response StatusOK
                (JSON_object \<lparr>ID = nextID st, Title = Title b, Author = Author b\<rparr>),
              snd (CreateBook decode st \<lparr>path = p, body = bd\<rparr>))"
  using assms
  by (simp add: CreateBook_def GetBook_def sendJSON_def idStr_def Let_def Book_ID_update
        Atoi_Itoa)

theorem create_then_get_witness:
  "two_bodies ''first'' = Some \<lparr>ID = 99, Title = ''T'', Author = ''A''\<rparr>
   \<and> fst (CreateBook two_bodies one_book \<lparr>path = ''/books'', body = ''first''\<rparr>) =
       Response 201 (JSON_object \<lparr>ID = 2, Title = ''T'', Author = ''A''\<rparr>)
   \<and> Atoi ''2'' = Some (nextID one_book)
   \<and> Itoa (nextID one_book) = ''2''
   \<and> fst (GetBook (snd (CreateBook two_bodies one_book \<lparr>path = ''/books'', body = ''first''\<rparr>))
            \<lparr>path = ''/books/'' @ ''2'', body = []\<rparr>) =
       Response 200 (JSON_object \<lparr>ID = 2, Title = ''T'', Author = ''A''\<rparr>)"
  using create_then_get [of two_bodies "''first''"
          "\<lparr>ID = 99, Title = ''T'', Author = ''A''\<rparr>" one_book "''/books''" "[]"]
  by (simp add: Atoi_def isDigit_def two_bodies_def one_book_def StatusOK_def StatusCreated_def
        Itoa_def decimal.simps digit_char_def)

section \<open>Deleting a book\<close>

text \<open>
  C7. Let the path segment read as the id \<open>k\<close>. If the registry holds a record under \<open>k\<close>,
  Delete answers 204 with an empty body and removes the record, and a Get of \<open>k\<close> right
  after answers 404. If there is no record under \<open>k\<close>, Delete answers 404 and the registry
  is unchanged.
\<close>

theorem delete_then_get:
  assumes "Atoi seg = Some k"
  shows "(books st k \<noteq> None \<longrightarrow>
           DeleteBook st \<lparr>path = ''/books/'' @ seg, body = bd\<rparr> =
             (Response StatusNoContent Empty, st\<lparr>books := (books st)(k := None)\<rparr>)
           \<and> (\<forall>seg' bd'. Atoi seg' = Some k \<longrightarrow>
                GetBook (snd (DeleteBook st \<lparr>path = ''/books/'' @ seg, body = bd\<rparr>))
                        \<lparr>path = ''/books/'' @ seg', body = bd'\<rparr> =
                  (http_Error ''Book not found'' StatusNotFound,
                   snd (DeleteBook st \<lparr>path = ''/books/'' @ seg, body = bd\<rparr>))))
       \<and> (books st k = None \<longrightarrow>
           DeleteBook st \<lparr>path = ''/books/'' @ seg, body = bd\<rparr> =
             (http_Error ''Book not found'' StatusNotFound, st))"
  using assms
  by (auto simp add: DeleteBook_def GetBook_def idStr_def split: option.splits)

theorem delete_then_get_witness:
  "Atoi ''1'' = Some 1
   \<and> books one_book 1 \<noteq> None
   \<and> DeleteBook one_book \<lparr>path = ''/books/'' @ ''1'', body = []\<rparr> =
       (Response 204 Empty, one_book\<lparr>books := (books one_book)(1 := None)\<rparr>)
   \<and> fst (GetBook (snd (DeleteBook one_book \<lparr>path = ''/books/'' @ ''1'', body = []\<rparr>))
            \<lparr>path = ''/books/'' @ ''1'', body = []\<rparr>) =
       Response 404 (Plain (''Book not found'' @ [CHR 0x0A]))
   \<and> Atoi ''7'' = Some 7
   \<and> books one_book 7 = None
   \<and> DeleteBook one_book \<lparr>path = ''/books/'' @ ''7'', body = []\<rparr> =
       (Response 404 (Plain (''Book not found'' @ [CHR 0x0A])), one_book)"
  using delete_then_get [of "''1''" 1 one_book "[]"] delete_then_get [of "''7''" 7 one_book "[]"]
  by (simp add: Atoi_def isDigit_def one_book_def http_Error_def
        StatusNoContent_def StatusNotFound_def GetBook_def idStr_def)

section \<open>Invariants of the registry\<close>

text \<open>
  C8. In every registry state reached from the initial one by a sequence of Create, List,
  Get, Update and Delete operations, a book stored under a key has that key as its id.
\<close>

theorem stored_id_is_key:
  "books (final decode initial xs) k = Some b \<Longrightarrow> ID b = k"
  using final_keyed [of initial decode xs] by (simp add: initial_def)

text \<open>
  After two creations, an update of book 2 with a body that carries the id 99, and the
  deletion of book 1, key 2 holds a book whose id is 2.
\<close>

theorem stored_id_is_key_witness:
  "books (final two_bodies initial
      [Create ''first'', Create ''second'', List [2, 1], Update ''2'' ''first'', Delete ''1''])
      2 = Some \<lparr>ID = 2, Title = ''T'', Author = ''A''\<rparr>
   \<and> ID \<lparr>ID = 2, Title = ''T'', Author = ''A''\<rparr> = 2"
  using stored_id_is_key [of two_bodies
      "[Create ''first'', Create ''second'', List [2, 1], Update ''2'' ''first'', Delete ''1'']"
      2 "\<lparr>ID = 2, Title = ''T'', Author = ''A''\<rparr>"]
  by (simp add: final_def two_bodies_def initial_def CreateBook_def GetBooks_def UpdateBook_def
        DeleteBook_def idStr_def Atoi_def isDigit_def sendJSON_def Let_def)




section \<open>The order of the checks in Update\<close>

text \<open>
  C10. Update checks the path segment first, the body second and the presence of the
  record last: a segment that is no number gives 400 "Invalid book ID" whatever the body;
  a segment that is a number with a body that does not decode gives 400 "Invalid input",
  also when no record has that id; only with both in order does an absent record give
  404. In all three cases the registry is unchanged.
\<close>

theorem update_check_order:
  "(Atoi seg = None \<longrightarrow>
      UpdateBook decode st \<lparr>path = ''/books/'' @ seg, body = bd\<rparr> =
        (http_Error ''Invalid book ID'' StatusBadRequest, st))
   \<and> (Atoi seg \<noteq> None \<and> decode bd = None \<longrightarrow>
      UpdateBook decode st \<lparr>path = ''/books/'' @ seg, body = bd\<rparr> =
        (http_Error ''Invalid input'' StatusBadRequest, st))
   \<and> (Atoi seg = Some k \<and> decode bd \<noteq> None \<and> books st k = None \<longrightarrow>
      UpdateBook decode st \<lparr>path = ''/books/'' @ seg, body = bd\<rparr> =
        (http_Error ''Book not found'' StatusNotFound, st))"
  by (auto simp add: UpdateBook_def idStr_def split: option.splits)

text \<open>Id 7 is absent and the body does not decode: the answer is 400, not 404.\<close>

theorem update_check_order_witness:
  "Atoi ''7'' = Some 7
   \<and> two_bodies ''x'' = None
   \<and> books one_book 7 = None
   \<and> UpdateBook two_bodies one_book \<lparr>path = ''/books/'' @ ''7'', body = ''x''\<rparr> =
       (Response 400 (Plain (''Invalid input'' @ [CHR 0x0A])), one_book)
   \<and> Atoi ''seven'' = None
   \<and> UpdateBook two_bodies one_book \<lparr>path = ''/books/'' @ ''seven'', body = ''x''\<rparr> =
       (Response 400 (Plain (''Invalid book ID'' @ [CHR 0x0A])), one_book)
   \<and> two_bodies ''first'' \<noteq> None
   \<and> UpdateBook two_bodies one_book \<lparr>path = ''/books/'' @ ''7'', body = ''first''\<rparr> =
       (Response 404 (Plain (''Book not found'' @ [CHR 0x0A])), one_book)"
  using update_check_order [of "''7''" two_bodies one_book "''x''" 7]
        update_check_order [of "''seven''" two_bodies one_book "''x''" 7]
        update_check_order [of "''7''" two_bodies one_book "''first''" 7]
  by (simp add: Atoi_def isDigit_def two_bodies_def one_book_def http_Error_def
        StatusBadRequest_def StatusNotFound_def)

end
